theory Spec2Isabelle
  imports Complex_Main "HOL-Library.AList" "HOL-Library.Sublist"
begin

section \<open>Python values\<close>

text \<open>
  The configuration trees, the decoded manifest and the stage results are Python objects
  built from YAML and JSON documents. A dict is an association list in insertion order
  (keys are strings); a Python dict never holds a key twice. Floats are rendered as exact
  rationals.
\<close>

datatype pyval =
    PNone
  | PBool bool
  | PInt int
  | PFloat rat
  | PStr string
  | PList "pyval list"
  | PDict "(string \<times> pyval) list"

type_synonym dict = "(string \<times> pyval) list"

section \<open>Configuration Resolver: \<open>_deep_merge\<close>\<close>

text \<open>
  \<^verbatim>\<open>result = base.copy()
for key, value in override.items():
    if key in result and isinstance(result[key], dict) and isinstance(value, dict):
        result[key] = self._deep_merge(result[key], value)
    else:
        result[key] = value
return result\<close>
  The first argument is the accumulating \<open>result\<close> (initially the copy of \<open>base\<close>), the
  second the items of \<open>override\<close> still to be visited. Assigning to an existing key keeps
  its position, assigning to a new key appends it.
\<close>

fun deep_merge :: "dict \<Rightarrow> dict \<Rightarrow> dict" where
  "deep_merge result [] = result"
| "deep_merge result ((key, value) # override) =
     deep_merge
       (case (map_of result key, value) of
          (Some (PDict r), PDict v) \<Rightarrow> AList.update key (PDict (deep_merge r v)) result
        | _ \<Rightarrow> AList.update key value result)
       override"


section \<open>Python operations on values\<close>

text \<open>
  Exceptions are values. \<open>PyException msg\<close> is \<^verbatim>\<open>raise Exception(msg)\<close>; the other
  constructors are the built-in exception classes the modelled statements can raise
  (\<open>JSONDecodeError\<close> also stands for the \<open>UnicodeDecodeError\<close> caught with it).
\<close>

datatype error =
    AttributeError
  | TypeError
  | KeyError string
  | NameError string
  | OSError
  | JSONDecodeError
  | ValueError
  | RecursionError
  | PyException string

definition bind :: "error + 'a \<Rightarrow> ('a \<Rightarrow> error + 'b) \<Rightarrow> error + 'b" where
  "bind x f = (case x of Inl e \<Rightarrow> Inl e | Inr a \<Rightarrow> f a)"

text \<open>Truth value of an object, as \<^verbatim>\<open>if x:\<close>, \<^verbatim>\<open>not x\<close> and \<^verbatim>\<open>x or y\<close> test it.\<close>

fun truthy :: "pyval \<Rightarrow> bool" where
  "truthy PNone = False"
| "truthy (PBool b) = b"
| "truthy (PInt i) = (i \<noteq> 0)"
| "truthy (PFloat q) = (q \<noteq> 0)"
| "truthy (PStr s) = (s \<noteq> [])"
| "truthy (PList l) = (l \<noteq> [])"
| "truthy (PDict d) = (d \<noteq> [])"

text \<open>
  \<^verbatim>\<open>key in x\<close> for a string \<open>key\<close>: key membership in a dict, element membership in a
  list, substring test in a string; any other operand raises \<open>TypeError\<close>.
\<close>

fun py_in :: "string \<Rightarrow> pyval \<Rightarrow> error + bool" where
  "py_in k (PDict d) = Inr (map_of d k \<noteq> None)"
| "py_in k (PList l) = Inr (PStr k \<in> set l)"
| "py_in k (PStr s) = Inr (sublist k s)"
| "py_in k _ = Inl TypeError"

text \<open>\<^verbatim>\<open>x.get(key, default)\<close>: only a dict has the method.\<close>

fun py_get :: "pyval \<Rightarrow> string \<Rightarrow> pyval \<Rightarrow> error + pyval" where
  "py_get (PDict d) k dflt = Inr (case map_of d k of Some v \<Rightarrow> v | None \<Rightarrow> dflt)"
| "py_get _ k dflt = Inl AttributeError"

text \<open>\<^verbatim>\<open>x[key]\<close> with a string key: a dict looks it up, everything else raises \<open>TypeError\<close>.\<close>

fun py_getitem :: "pyval \<Rightarrow> string \<Rightarrow> error + pyval" where
  "py_getitem (PDict d) k = (case map_of d k of Some v \<Rightarrow> Inr v | None \<Rightarrow> Inl (KeyError k))"
| "py_getitem _ k = Inl TypeError"

text \<open>\<^verbatim>\<open>x[key] = v\<close> with a string key, returning the object after the assignment.\<close>

fun py_setitem :: "pyval \<Rightarrow> string \<Rightarrow> pyval \<Rightarrow> error + pyval" where
  "py_setitem (PDict d) k v = Inr (PDict (AList.update k v d))"
| "py_setitem _ k v = Inl TypeError"

text \<open>\<^verbatim>\<open>config.get(key, {})\<close> on a top-level configuration dict.\<close>

definition section_of :: "dict \<Rightarrow> string \<Rightarrow> pyval" where
  "section_of config k = (case map_of config k of Some v \<Rightarrow> v | None \<Rightarrow> PDict [])"

text \<open>
  \<^verbatim>\<open>str.lower()\<close> and \<^verbatim>\<open>str.replace(old, new)\<close> for a one-character \<open>old\<close>. Characters
  are bytes here, so \<open>lower\<close> is exact on ASCII text.
\<close>

definition lower_char :: "char \<Rightarrow> char" where
  "lower_char c =
     (if 65 \<le> (of_char c :: nat) \<and> (of_char c :: nat) \<le> 90
      then char_of (of_char c + (32 :: nat)) else c)"

definition lower :: "string \<Rightarrow> string" where
  "lower s = map lower_char s"

definition replace :: "char \<Rightarrow> string \<Rightarrow> string \<Rightarrow> string" where
  "replace old new s = concat (map (\<lambda>c. if c = old then new else [c]) s)"

text \<open>\<^verbatim>\<open>x.lower().replace('_', '-')\<close>: only a string has the methods.\<close>

fun normalize_name :: "pyval \<Rightarrow> error + string" where
  "normalize_name (PStr s) = Inr (replace CHR ''_'' ''-'' (lower s))"
| "normalize_name _ = Inl AttributeError"

text \<open>
  The process environment and the built-in \<^verbatim>\<open>str\<close>. A replacement field of an f-string
  formats its value with \<^verbatim>\<open>str\<close>, which is the identity on strings; its rendering of
  the other values is a parameter of the model.
\<close>

record runtime =
  environ :: "string \<Rightarrow> string option"
  str_of :: "pyval \<Rightarrow> string"

definition getenv :: "runtime \<Rightarrow> string \<Rightarrow> pyval \<Rightarrow> pyval" where
  \<comment> \<open>\<^verbatim>\<open>os.getenv(name, default)\<close>\<close>
  "getenv rt name dflt = (case environ rt name of Some s \<Rightarrow> PStr s | None \<Rightarrow> dflt)"

definition format :: "runtime \<Rightarrow> pyval \<Rightarrow> string" where
  "format rt v = (case v of PStr s \<Rightarrow> s | _ \<Rightarrow> str_of rt v)"


section \<open>Configuration Resolver: \<open>SmartConfigMerger\<close>\<close>

text \<open>
  The two layers loaded at construction, typed as the source annotates them
  (\<^verbatim>\<open>Dict[str, Any]\<close> and \<^verbatim>\<open>Dict[str, Dict[str, Any]]\<close>). The record is the state of the
  merger object at a call: \<open>merge_config\<close> below is the value one call returns from that
  state, and \<open>merge_config_call\<close> adds the state the call leaves behind, since the merged
  tree shares section dicts with the layers and the auto-detection assigns into them.
\<close>

record merger =
  global_config :: dict
  framework_defaults :: "(string \<times> dict) list"

text \<open>
  \<open>_add_environment_overrides\<close>: the \<open>build_info\<close> block is injected when
  \<open>BUILD_BUILDNUMBER\<close> is set and not empty.
\<close>

definition add_environment_overrides :: "runtime \<Rightarrow> dict \<Rightarrow> dict" where
  "add_environment_overrides rt config =
     (if truthy (getenv rt ''BUILD_BUILDNUMBER'' PNone)
      then AList.update ''build_info''
             (PDict
               [(''build_number'', getenv rt ''BUILD_BUILDNUMBER'' PNone),
                (''build_id'', getenv rt ''BUILD_BUILDID'' PNone),
                (''source_version'',
                   (case environ rt ''BUILD_SOURCEVERSION'' of
                      Some s \<Rightarrow> PStr (take 8 s) | None \<Rightarrow> PStr [])),
                (''source_branch'', getenv rt ''BUILD_SOURCEBRANCHNAME'' (PStr ''unknown'')),
                (''pipeline_name'', getenv rt ''BUILD_DEFINITIONNAME'' (PStr ''unknown'')),
                (''build_reason'', getenv rt ''BUILD_REASON'' (PStr ''manual''))])
             config
      else config)"

text \<open>
  \<open>_add_auto_detected_values\<close>, one definition per section of the source function, in
  the source's order. Each takes the configuration and returns it after the statements
  of its section, or the exception they raise.

  The \<open>app\<close> section (source lines 110 to 123).
\<close>

definition auto_app :: "runtime \<Rightarrow> dict \<Rightarrow> dict \<Rightarrow> string \<Rightarrow> error + dict" where
  "auto_app rt config original_config detected_framework =
     (let app = section_of config ''app'' in
      bind (py_in ''name'' app) (\<lambda>has_name.
      bind (if has_name then Inr app
            else
              bind (py_get (section_of original_config ''app'') ''name'' PNone) (\<lambda>given.
              bind (normalize_name
                      (if truthy given then given
                       else getenv rt ''BUILD_REPOSITORY_NAME'' (PStr ''unknown-app''))) (\<lambda>app_name.
              py_setitem app ''name'' (PStr app_name)))) (\<lambda>app.
      bind (py_setitem app ''framework'' (PStr detected_framework)) (\<lambda>app.
      bind (py_setitem app ''detected_framework'' (PStr detected_framework)) (\<lambda>app.
      Inr (AList.update ''app'' app config))))))"

text \<open>The \<open>source\<close> section (source lines 125 to 134).\<close>

definition auto_source :: "runtime \<Rightarrow> dict \<Rightarrow> error + dict" where
  "auto_source rt config =
     (let source_config = section_of config ''source'' in
      bind (py_get source_config ''repo_url'' (PStr [])) (\<lambda>old_url.
      bind (py_setitem source_config ''repo_url''
              (getenv rt ''BUILD_REPOSITORY_URI'' old_url)) (\<lambda>source_config.
      bind (py_get source_config ''branch'' (PStr ''main'')) (\<lambda>old_branch.
      bind (py_setitem source_config ''branch''
              (getenv rt ''BUILD_SOURCEBRANCHNAME'' old_branch)) (\<lambda>source_config.
      bind (py_setitem source_config ''commit_sha''
              (getenv rt ''BUILD_SOURCEVERSION'' (PStr []))) (\<lambda>source_config.
      Inr (AList.update ''source'' source_config config)))))))"

text \<open>The \<open>docker\<close> section (source lines 136 to 152).\<close>

definition auto_docker :: "runtime \<Rightarrow> merger \<Rightarrow> dict \<Rightarrow> error + dict" where
  "auto_docker rt m config =
     (let docker_config = section_of config ''docker'' in
      bind (py_in ''repository'' docker_config) (\<lambda>has_repository.
      bind (if has_repository then Inr docker_config
            else
              bind (py_get (section_of (global_config m) ''docker'') ''organization''
                      (PStr ''myorg'')) (\<lambda>organization.
              py_setitem docker_config ''repository''
                (getenv rt ''DOCKER_REPOSITORY'' organization))) (\<lambda>docker_config.
      bind (py_in ''image'' docker_config) (\<lambda>has_image.
      bind (if has_image then Inr docker_config
            else
              bind (py_getitem (PDict config) ''app'') (\<lambda>app.
              bind (py_getitem app ''name'') (\<lambda>name.
              py_setitem docker_config ''image'' name))) (\<lambda>docker_config.
      bind (py_setitem docker_config ''tag''
              (PStr (''v'' @ format rt (getenv rt ''BUILD_BUILDNUMBER'' (PStr ''local''))))) (\<lambda>docker_config.
      bind (py_getitem docker_config ''repository'') (\<lambda>repository.
      bind (py_getitem docker_config ''image'') (\<lambda>image.
      bind (py_getitem docker_config ''tag'') (\<lambda>tag.
      bind (py_setitem docker_config ''full_image''
              (PStr (format rt repository @ ''/'' @ format rt image @ '':'' @ format rt tag))) (\<lambda>docker_config.
      bind (py_setitem docker_config ''latest_image''
              (PStr (format rt repository @ ''/'' @ format rt image @ '':latest''))) (\<lambda>docker_config.
      Inr (AList.update ''docker'' docker_config config))))))))))))"

text \<open>The branch-to-environment mapping (source lines 164 to 169).\<close>

definition environment_of_branch :: "pyval \<Rightarrow> string" where
  "environment_of_branch branch =
     (if branch \<in> set [PStr ''main'', PStr ''master''] then ''production''
      else if branch = PStr ''develop'' then ''staging''
      else ''development'')"

text \<open>The \<open>deployment\<close> section (source lines 154 to 169).\<close>

definition auto_deployment :: "dict \<Rightarrow> error + dict" where
  "auto_deployment config =
     (let deployment_config = section_of config ''deployment'' in
      bind (py_in ''namespace'' deployment_config) (\<lambda>has_namespace.
      bind (if has_namespace then Inr deployment_config
            else
              bind (py_getitem (PDict config) ''app'') (\<lambda>app.
              bind (py_getitem app ''name'') (\<lambda>name.
              py_setitem deployment_config ''namespace'' name))) (\<lambda>deployment_config.
      bind (py_in ''environment'' deployment_config) (\<lambda>has_environment.
      bind (if has_environment then Inr deployment_config
            else
              bind (py_get (section_of config ''source'') ''branch'' (PStr ''unknown'')) (\<lambda>branch.
              py_setitem deployment_config ''environment''
                (PStr (environment_of_branch branch)))) (\<lambda>deployment_config.
      Inr (AList.update ''deployment'' deployment_config config))))))"

definition add_auto_detected_values ::
  "runtime \<Rightarrow> merger \<Rightarrow> dict \<Rightarrow> dict \<Rightarrow> string \<Rightarrow> error + dict" where
  "add_auto_detected_values rt m config original_config detected_framework =
     bind (auto_app rt config original_config detected_framework) (\<lambda>config.
     bind (auto_source rt config) (\<lambda>config.
     bind (auto_docker rt m config) (\<lambda>config.
     auto_deployment config)))"

text \<open>The three explicit layers of \<open>merge_config\<close>, low to high precedence.\<close>

definition merged_layers :: "merger \<Rightarrow> dict \<Rightarrow> string \<Rightarrow> dict" where
  "merged_layers m app_config detected_framework =
     deep_merge
       (deep_merge (deep_merge [] (global_config m))
          (case map_of (framework_defaults m) detected_framework of
             Some d \<Rightarrow> d | None \<Rightarrow> []))
       app_config"

definition merge_config :: "runtime \<Rightarrow> merger \<Rightarrow> dict \<Rightarrow> string \<Rightarrow> error + dict" where
  "merge_config rt m app_config detected_framework =
     add_auto_detected_values rt m
       (add_environment_overrides rt (merged_layers m app_config detected_framework))
       app_config detected_framework"

text \<open>
  Object identity of the top-level sections. \<open>_deep_merge\<close> copies only the dict it is
  called on (\<^verbatim>\<open>result = base.copy()\<close>): \<^verbatim>\<open>result[key] = value\<close> stores the override's own
  object, and only a recursive merge makes a new dict. So a section of the merged tree
  is the very dict object of the global configuration, of the framework defaults or of
  \<open>app_config\<close>, or a fresh one (made by a recursive merge, or by \<^verbatim>\<open>config[key] = {}\<close>).
  \<open>deep_merge_top\<close> is \<open>_deep_merge\<close> on layers whose values carry that owner. The
  layers and their sections are taken to be pairwise distinct objects.
\<close>

datatype owner = Global | Defaults | App | Fresh

type_synonym tagged = "(string \<times> owner \<times> pyval) list"

definition tag_layer :: "owner \<Rightarrow> dict \<Rightarrow> tagged" where
  "tag_layer who layer = map (\<lambda>(k, v). (k, who, v)) layer"

fun deep_merge_top :: "tagged \<Rightarrow> tagged \<Rightarrow> tagged" where
  "deep_merge_top result [] = result"
| "deep_merge_top result ((key, who, value) # override) =
     deep_merge_top
       (case (map_of result key, value) of
          (Some (_, PDict r), PDict v) \<Rightarrow>
            AList.update key (Fresh, PDict (deep_merge r v)) result
        | _ \<Rightarrow> AList.update key (who, value) result)
       override"

definition tagged_layers :: "merger \<Rightarrow> dict \<Rightarrow> string \<Rightarrow> tagged" where
  "tagged_layers m app_config detected_framework =
     deep_merge_top
       (deep_merge_top (deep_merge_top [] (tag_layer Global (global_config m)))
          (tag_layer Defaults
             (case map_of (framework_defaults m) detected_framework of
                Some d \<Rightarrow> d | None \<Rightarrow> [])))
       (tag_layer App app_config)"

definition section_owner :: "tagged \<Rightarrow> string \<Rightarrow> owner" where
  "section_owner layers k = (case map_of layers k of Some (who, v) \<Rightarrow> who | None \<Rightarrow> Fresh)"

text \<open>The merged tree without the owners.\<close>

definition untag :: "tagged \<Rightarrow> dict" where
  "untag layers = map (\<lambda>(k, who, v). (k, v)) layers"

text \<open>
  An assignment into a section dict is an assignment into its owner: the merger's state
  and the caller's \<open>app_config\<close> after the section \<open>k\<close> of the merged tree has become \<open>v\<close>.
\<close>

fun store_section ::
  "owner \<Rightarrow> string \<Rightarrow> string \<Rightarrow> pyval \<Rightarrow> merger \<times> dict \<Rightarrow> merger \<times> dict" where
  "store_section Global fw k v (m, app_config) =
     (m\<lparr>global_config := AList.update k v (global_config m)\<rparr>, app_config)"
| "store_section Defaults fw k v (m, app_config) =
     (m\<lparr>framework_defaults :=
          AList.update fw
            (AList.update k v
               (case map_of (framework_defaults m) fw of Some d \<Rightarrow> d | None \<Rightarrow> []))
            (framework_defaults m)\<rparr>,
      app_config)"
| "store_section App fw k v (m, app_config) = (m, AList.update k v app_config)"
| "store_section Fresh fw k v (m, app_config) = (m, app_config)"

text \<open>
  The state after the statements of one part: section \<open>k\<close> of the configuration, as the
  part left it, is stored in its owner.
\<close>

definition assigned ::
  "tagged \<Rightarrow> string \<Rightarrow> string \<Rightarrow> dict \<Rightarrow> merger \<times> dict \<Rightarrow> merger \<times> dict" where
  "assigned owners fw k config state =
     store_section (section_owner owners k) fw k (section_of config k) state"

text \<open>
  One call of \<open>merge_config\<close> on the merger object: the returned value (or the
  exception), and the state after the call, that is the merger and the caller's
  \<open>app_config\<close>. Each of the four sections is assigned into only after every statement
  of its part that can raise, so a part either fails with nothing assigned or has made
  all its assignments; the parts already done stay done when a later one raises.
\<close>

definition merge_config_call ::
  "runtime \<Rightarrow> merger \<Rightarrow> dict \<Rightarrow> string \<Rightarrow> (error + dict) \<times> (merger \<times> dict)" where
  "merge_config_call rt m app_config detected_framework =
     (let owners = tagged_layers m app_config detected_framework;
          config0 = add_environment_overrides rt
                      (merged_layers m app_config detected_framework);
          s0 = (m, app_config)
      in
      (case auto_app rt config0 app_config detected_framework of
         Inl e \<Rightarrow> (Inl e, s0)
       | Inr config1 \<Rightarrow>
           (let s1 = assigned owners detected_framework ''app'' config1 s0 in
            (case auto_source rt config1 of
               Inl e \<Rightarrow> (Inl e, s1)
             | Inr config2 \<Rightarrow>
                 (let s2 = assigned owners detected_framework ''source'' config2 s1 in
                  (case auto_docker rt (fst s2) config2 of
                     Inl e \<Rightarrow> (Inl e, s2)
                   | Inr config3 \<Rightarrow>
                       (let s3 = assigned owners detected_framework ''docker'' config3 s2 in
                        (case auto_deployment config3 of
                           Inl e \<Rightarrow> (Inl e, s3)
                         | Inr config4 \<Rightarrow>
                             (Inr config4,
                              assigned owners detected_framework ''deployment''
                                config4 s3)))))))))"

text \<open>
  \<open>validate_config\<close>. The name \<open>both\<close> in the resource check is bound nowhere in the
  source, so evaluating \<^verbatim>\<open>'cpu' in both\<close> raises \<open>NameError\<close>; the comparisons of parsed
  CPU and memory quantities behind it are never reached.
\<close>

definition validate_config :: "dict \<Rightarrow> error + dict" where
  "validate_config config =
     bind (py_get (section_of config ''app'') ''name'' PNone) (\<lambda>name.
     bind (py_get (section_of config ''docker'') ''repository'' PNone) (\<lambda>repository.
     let errors =
           (if \<not> truthy name then [PStr ''app.name is required''] else []) @
           (if \<not> truthy repository then [PStr ''docker.repository is required''] else []);
         warnings = [];
         annotated =
           AList.update ''validation''
             (PDict [(''errors'', PList errors), (''warnings'', PList warnings),
                     (''valid'', PBool (length errors = 0))])
             config
     in
     bind (if map_of config ''deployment'' \<noteq> None
           then py_in ''resources'' (section_of config ''deployment'')
           else Inr False) (\<lambda>has_resources.
     if has_resources then
       bind (py_getitem (section_of config ''deployment'') ''resources'') (\<lambda>resources.
       bind (py_in ''limits'' resources) (\<lambda>has_limits.
       bind (if has_limits then py_in ''requests'' resources else Inr False) (\<lambda>has_both.
       if has_both then
         bind (py_getitem resources ''limits'') (\<lambda>limits.
         bind (py_getitem resources ''requests'') (\<lambda>requests.
         Inl (NameError ''both'')))
       else Inr annotated)))
     else Inr annotated)))"




section \<open>Detection Engine: \<open>FrameworkDetector\<close>\<close>

text \<open>
  What the detector sees of a repository: whether \<open>repo_path\<close> exists, the relative
  paths that exist below it, and what reading and decoding \<open>package.json\<close> gives when
  that file exists: \<open>open\<close> raises \<open>OSError\<close> (\<open>Unreadable\<close>), \<open>json.load\<close> raises one of
  the two decode errors the loader catches (\<open>Undecodable\<close>), \<open>json.load\<close> raises any other
  exception (\<open>Raising\<close>: \<open>ValueError\<close> for an integer literal of more than 4300 digits,
  \<open>RecursionError\<close> for nesting that is too deep), or the decoded value.
  \<open>dir_name\<close> is \<^verbatim>\<open>Path(repo_path).name\<close>.
\<close>

datatype file_content = Unreadable | Undecodable | Raising error | Decoded pyval

record repo =
  repo_path :: string
  dir_name :: string
  path_exists :: bool
  entries :: "string list"
  package_json :: file_content

record profile =
  files :: "string list"
  package_dependencies :: "string list"
  package_dev_dependencies :: "string list"
  config_files :: "string list"
  build_commands :: "string list"
  start_commands :: "string list"
  weight :: rat

definition detection_patterns :: "(string \<times> profile) list" where
  "detection_patterns =
     [(''angular'',
       \<lparr>files = [''angular.json'', ''src/main.ts'', ''src/app/app.module.ts''],
        package_dependencies = [''@angular/core'', ''@angular/cli'', ''@angular/common''],
        package_dev_dependencies = [''@angular/cli'', ''@angular-devkit/build-angular''],
        config_files = [''angular.json'', ''tsconfig.json'', ''tsconfig.app.json''],
        build_commands = [''build:prod'', ''build'', ''ng build''],
        start_commands = [''start'', ''serve'', ''ng serve''],
        weight = 1\<rparr>),
      (''react'',
       \<lparr>files = [''src/App.js'', ''src/App.tsx'', ''public/index.html'', ''src/index.js''],
        package_dependencies = [''react'', ''react-dom''],
        package_dev_dependencies = [''react-scripts'', ''create-react-app''],
        config_files = [''package.json''],
        build_commands = [''build'', ''react-scripts build''],
        start_commands = [''start'', ''react-scripts start''],
        weight = 9 / 10\<rparr>),
      (''vue'',
       \<lparr>files = [''src/App.vue'', ''vue.config.js'', ''src/main.js''],
        package_dependencies = [''vue''],
        package_dev_dependencies = [''@vue/cli-service'', ''@vue/cli''],
        config_files = [''vue.config.js''],
        build_commands = [''build'', ''vue-cli-service build''],
        start_commands = [''serve'', ''vue-cli-service serve''],
        weight = 8 / 10\<rparr>),
      (''nextjs'',
       \<lparr>files = [''next.config.js'', ''pages/_app.js'', ''pages/index.js''],
        package_dependencies = [''next'', ''react''],
        package_dev_dependencies = [''next''],
        config_files = [''next.config.js''],
        build_commands = [''build'', ''next build''],
        start_commands = [''dev'', ''next dev''],
        weight = 9 / 10\<rparr>)]"

text \<open>\<^verbatim>\<open>(Path(repo_path) / rel).exists()\<close>\<close>

definition exists_in :: "repo \<Rightarrow> string \<Rightarrow> bool" where
  "exists_in r rel = (rel \<in> set (entries r))"

text \<open>\<^verbatim>\<open>json.load(open(package_json_path))\<close>\<close>

fun read_json :: "file_content \<Rightarrow> error + pyval" where
  "read_json Unreadable = Inl OSError"
| "read_json Undecodable = Inl JSONDecodeError"
| "read_json (Raising e) = Inl e"
| "read_json (Decoded v) = Inr v"

text \<open>
  \<open>_load_package_json\<close>: \<open>None\<close> when the file is missing or does not decode; any other
  exception of the read propagates.
\<close>

definition load_package_json :: "repo \<Rightarrow> error + pyval" where
  "load_package_json r =
     (if \<not> exists_in r ''package.json'' then Inr PNone
      else (case read_json (package_json r) of
              Inl JSONDecodeError \<Rightarrow> Inr PNone
            | Inl e \<Rightarrow> Inl e
            | Inr v \<Rightarrow> Inr v))"

text \<open>
  The four scoring loops of \<open>detect_framework\<close> share one shape:
  \<^verbatim>\<open>for x in candidates:
    if <test x>:
        score += points
        found.append(x)\<close>
\<close>

fun scan ::
  "(string \<Rightarrow> error + bool) \<Rightarrow> int \<Rightarrow> string list \<Rightarrow> int \<times> string list \<Rightarrow>
   error + int \<times> string list" where
  "scan test points [] acc = Inr acc"
| "scan test points (x # xs) (score, found) =
     bind (test x) (\<lambda>hit.
       scan test points xs (if hit then (score + points, found @ [x]) else (score, found)))"

definition str_list :: "string list \<Rightarrow> pyval" where
  "str_list xs = PList (map PStr xs)"

text \<open>
  The body of the loop over \<open>detection_patterns\<close>, up to the weighting: the raw score of
  one profile and its \<open>details\<close> dict.
\<close>

definition score_profile :: "repo \<Rightarrow> pyval \<Rightarrow> profile \<Rightarrow> error + int \<times> pyval" where
  "score_profile r package_json_data patterns =
     bind (scan (\<lambda>f. Inr (exists_in r f)) 3 (files patterns) (0, [])) (\<lambda>(file_score, files_found).
     bind (if truthy package_json_data then
             bind (py_get package_json_data ''dependencies'' (PDict [])) (\<lambda>deps.
             bind (py_get package_json_data ''devDependencies'' (PDict [])) (\<lambda>dev_deps.
             bind (scan (\<lambda>d. py_in d deps) 5 (package_dependencies patterns) (0, [])) (\<lambda>dep.
             bind (scan (\<lambda>d. py_in d dev_deps) 3 (package_dev_dependencies patterns) (0, [])) (\<lambda>dev_dep.
             Inr (Some (dep, dev_dep))))))
           else Inr None) (\<lambda>dependency_part.
     bind (scan (\<lambda>f. Inr (exists_in r f)) 2 (config_files patterns) (0, [])) (\<lambda>(config_score, config_files_found).
     bind (if truthy package_json_data then
             bind (py_get package_json_data ''scripts'' (PDict [])) (\<lambda>scripts.
             bind (scan (\<lambda>c. py_in c scripts) 1 (build_commands patterns) (0, [])) (\<lambda>build.
             Inr (Some build)))
           else Inr None) (\<lambda>build_part.
     let (dep_score, dependencies_found, dev_dep_score, dev_dependencies_found) =
           (case dependency_part of
              Some ((a, b), (c, d)) \<Rightarrow> (a, b, c, d) | None \<Rightarrow> (0, [], 0, []));
         (build_score, build_commands_available) =
           (case build_part of Some b \<Rightarrow> b | None \<Rightarrow> (0, []));
         breakdown =
           [(''files'', PInt file_score)] @
           (case dependency_part of
              Some _ \<Rightarrow> [(''dependencies'', PInt dep_score),
                         (''dev_dependencies'', PInt dev_dep_score)]
            | None \<Rightarrow> []) @
           [(''config_files'', PInt config_score)] @
           (case build_part of Some _ \<Rightarrow> [(''build_commands'', PInt build_score)] | None \<Rightarrow> [])
     in
     Inr (file_score + (dep_score + dev_dep_score) + config_score + build_score,
          PDict
            [(''files_found'', str_list files_found),
             (''dependencies_found'', str_list dependencies_found),
             (''dev_dependencies_found'', str_list dev_dependencies_found),
             (''config_files_found'', str_list config_files_found),
             (''build_commands_available'', str_list build_commands_available),
             (''confidence_breakdown'', PDict breakdown)])))))"

text \<open>
  The loop over the profiles, filling \<open>scores\<close> and \<open>detection_details\<close> with the
  frameworks whose weighted score is positive.
\<close>

fun score_all ::
  "repo \<Rightarrow> pyval \<Rightarrow> (string \<times> profile) list \<Rightarrow> (string \<times> rat) list \<times> dict \<Rightarrow>
   error + (string \<times> rat) list \<times> dict" where
  "score_all r package_json_data [] acc = Inr acc"
| "score_all r package_json_data ((framework, patterns) # rest) (scores, detection_details) =
     bind (score_profile r package_json_data patterns) (\<lambda>(score, details).
       let weighted_score = of_int score * weight patterns in
       score_all r package_json_data rest
         (if weighted_score > 0
          then (AList.update framework weighted_score scores,
                AList.update framework details detection_details)
          else (scores, detection_details)))"

text \<open>
  \<^verbatim>\<open>max(scores, key=scores.get)\<close>: the first key, in insertion order, whose score no
  other key exceeds. The second argument is the best entry so far.
\<close>

fun max_by_score :: "(string \<times> rat) list \<Rightarrow> string \<times> rat \<Rightarrow> string \<times> rat" where
  "max_by_score [] best = best"
| "max_by_score ((k, v) # rest) (bk, bv) =
     max_by_score rest (if v > bv then (k, v) else (bk, bv))"

definition detect_framework :: "repo \<Rightarrow> error + string \<times> rat \<times> pyval" where
  "detect_framework r =
     (if \<not> path_exists r then Inr (''unknown'', 0, PDict [])
      else
        bind (load_package_json r) (\<lambda>package_json_data.
        bind (score_all r package_json_data detection_patterns ([], [])) (\<lambda>(scores, detection_details).
        (case scores of
           first # others \<Rightarrow>
             let (detected_framework, max_score) = max_by_score others first;
                 max_possible = 50;
                 confidence = min (max_score / max_possible) 1
             in bind (py_getitem (PDict detection_details) detected_framework) (\<lambda>details.
                Inr (detected_framework, confidence, details))
         | [] \<Rightarrow> Inr (''generic'', 1 / 10, PDict [])))))"


text \<open>
  \<open>detect_build_strategy\<close>. The loop over the preferred commands returns at the first
  one found among the manifest's scripts; \<open>None\<close> stands for falling out of the loop.
\<close>

fun py_keys :: "pyval \<Rightarrow> error + pyval" where
  "py_keys (PDict d) = Inr (str_list (map fst d))"
| "py_keys _ = Inl AttributeError"

fun first_script ::
  "pyval \<Rightarrow> string \<Rightarrow> string \<Rightarrow> string list \<Rightarrow> error + dict option" where
  "first_script scripts framework install_command [] = Inr None"
| "first_script scripts framework install_command (cmd # cmds) =
     bind (py_in cmd scripts) (\<lambda>hit.
       if hit then
         bind (py_getitem scripts cmd) (\<lambda>script_content.
         bind (py_keys scripts) (\<lambda>available_scripts.
         Inr (Some
           [(''command'', PStr (''npm run '' @ cmd)),
            (''type'', PStr framework),
            (''script_content'', script_content),
            (''install_command'', PStr install_command),
            (''available_scripts'', available_scripts)])))
       else first_script scripts framework install_command cmds)"

definition detect_build_strategy :: "repo \<Rightarrow> string \<Rightarrow> error + dict" where
  "detect_build_strategy r framework =
     bind (load_package_json r) (\<lambda>package_json_data.
     if \<not> truthy package_json_data then
       Inr [(''command'', PStr ''echo \"No package.json found\"''),
            (''type'', PStr ''generic''),
            (''install_command'', PStr ''echo \"No install needed\"'')]
     else
       bind (py_get package_json_data ''scripts'' (PDict [])) (\<lambda>scripts.
       let install_command =
             (if \<not> exists_in r ''package-lock.json''
              then ''npm install --prefer-offline --no-audit --no-fund''
              else ''npm ci --prefer-offline --no-audit --no-fund'');
           preferred_commands =
             (case map_of detection_patterns framework of
                Some patterns \<Rightarrow> build_commands patterns | None \<Rightarrow> [''build''])
       in
       bind (first_script scripts framework install_command preferred_commands) (\<lambda>found.
       case found of
         Some strategy \<Rightarrow> Inr strategy
       | None \<Rightarrow>
           bind (py_in ''build'' scripts) (\<lambda>has_build.
           if has_build then
             bind (py_getitem scripts ''build'') (\<lambda>script_content.
             Inr [(''command'', PStr ''npm run build''),
                  (''type'', PStr ''generic''),
                  (''script_content'', script_content),
                  (''install_command'', PStr install_command)])
           else
             Inr [(''command'', PStr install_command),
                  (''type'', PStr ''install-only''),
                  (''install_command'', PStr install_command)]))))"

section \<open>Pipeline Orchestrator: \<open>SmartOrchestrator\<close>\<close>

text \<open>
  A result dict carries \<open>success\<close>: \<open>Failure e\<close> is
  \<^verbatim>\<open>{'success': False, 'error': str(e), 'duration': ...}\<close> and \<open>Success x\<close> is
  \<^verbatim>\<open>{'success': True, ...}\<close> with the remaining entries in \<open>x\<close>. Durations are wall-clock
  readings and are left out.
\<close>

datatype 'a result = Failure error | Success 'a

fun succeeded :: "'a result \<Rightarrow> bool" where
  "succeeded (Success x) = True"
| "succeeded (Failure e) = False"

text \<open>
  \<open>_extract_app_name\<close>. The bare \<^verbatim>\<open>except: pass\<close> swallows every exception of the
  manifest branch; \<open>name_from_manifest\<close> is the body of that \<^verbatim>\<open>try\<close>.
\<close>

definition name_from_manifest :: "repo \<Rightarrow> error + string option" where
  "name_from_manifest r =
     bind (read_json (package_json r)) (\<lambda>package_data.
     bind (py_in ''name'' package_data) (\<lambda>has_name.
     if has_name then
       bind (py_getitem package_data ''name'') (\<lambda>name.
       bind (normalize_name name) (\<lambda>cleaned.
       Inr (Some (replace CHR ''/'' ''-'' (replace CHR ''@'' [] cleaned)))))
     else Inr None))"

definition extract_app_name :: "runtime \<Rightarrow> repo \<Rightarrow> string" where
  "extract_app_name rt r =
     (case (if exists_in r ''package.json'' then name_from_manifest r else Inr None) of
        Inr (Some name) \<Rightarrow> name
      | _ \<Rightarrow>
          (case environ rt ''BUILD_REPOSITORY_NAME'' of
             Some (c # cs) \<Rightarrow> replace CHR ''_'' ''-'' (lower (c # cs))
           | _ \<Rightarrow> replace CHR ''_'' ''-'' (lower (dir_name r))))"

record analysis =
  a_config :: dict
  a_framework :: string
  a_confidence :: rat

text \<open>\<open>analyze_only\<close>: \<open>analysis_steps\<close> is the body of its \<^verbatim>\<open>try\<close>.\<close>

definition analysis_steps :: "runtime \<Rightarrow> merger \<Rightarrow> repo \<Rightarrow> error + analysis" where
  "analysis_steps rt m r =
     (if \<not> path_exists r
      then Inl (PyException (''Repository path does not exist: '' @ repo_path r))
      else
        bind (detect_framework r) (\<lambda>(framework, confidence, detection_details).
        bind (detect_build_strategy r framework) (\<lambda>build_strategy.
        let base_config =
              [(''app'', PDict [(''name'', PStr (extract_app_name rt r)),
                                (''framework'', PStr framework)]),
               (''detection'', PDict [(''framework'', PStr framework),
                                      (''confidence'', PFloat confidence),
                                      (''details'', detection_details)]),
               (''build_strategy'', PDict build_strategy)]
        in
        bind (merge_config rt m base_config framework) (\<lambda>merged_config.
        bind (validate_config merged_config) (\<lambda>final_config.
        Inr \<lparr>a_config = final_config, a_framework = framework,
             a_confidence = confidence\<rparr>)))))"

definition analyze_only :: "runtime \<Rightarrow> merger \<Rightarrow> repo \<Rightarrow> analysis result" where
  "analyze_only rt m r =
     (case analysis_steps rt m r of Inl e \<Rightarrow> Failure e | Inr a \<Rightarrow> Success a)"

text \<open>
  The stage collaborators. Each receives the configuration dict object and the
  repository; it raises or returns its result dict, and leaves the configuration object
  as the second component (the Build stage stores \<open>build_info\<close> in it). The trace lists
  the collaborators invoked, in order.
\<close>

datatype stage = Build | Container | Deploy

record stages =
  build_run :: "dict \<Rightarrow> repo \<Rightarrow> (error + pyval) \<times> dict"
  docker_run :: "dict \<Rightarrow> repo \<Rightarrow> (error + pyval) \<times> dict"
  deploy_run :: "dict \<Rightarrow> (error + pyval) \<times> dict"

record processing =
  p_build_result :: pyval
  p_docker_result :: pyval
  p_app_name :: pyval
  p_framework :: pyval

text \<open>
  \<open>process_repository\<close>: \<open>processing_steps\<close> is the body of its \<^verbatim>\<open>try\<close>, giving the
  exception or the entries of the success dict, the configuration object afterwards and
  the trace.
\<close>

definition check_stage :: "runtime \<Rightarrow> string \<Rightarrow> string \<Rightarrow> pyval \<Rightarrow> error + unit" where
  \<comment> \<open>\<^verbatim>\<open>if not result['success']: raise Exception(f"<label>: {result.get('error', '<unknown>')}")\<close>\<close>
  "check_stage rt label unknown stage_result =
     bind (py_getitem stage_result ''success'') (\<lambda>ok.
     if \<not> truthy ok then
       bind (py_get stage_result ''error'' (PStr unknown)) (\<lambda>err.
       Inl (PyException (label @ '': '' @ format rt err)))
     else Inr ())"

definition processing_steps ::
  "runtime \<Rightarrow> stages \<Rightarrow> repo \<Rightarrow> dict \<Rightarrow> (error + processing) \<times> dict \<times> stage list" where
  "processing_steps rt st r config =
     (if \<not> path_exists r
      then (Inl (PyException (''Repository path does not exist: '' @ repo_path r)), config, [])
      else if \<not> truthy (case map_of config ''success'' of Some v \<Rightarrow> v | None \<Rightarrow> PBool True)
      then (Inl (PyException ''Invalid configuration provided''), config, [])
      else
        (case bind (py_getitem (PDict config) ''app'') (\<lambda>app.
              bind (py_getitem app ''name'') (\<lambda>app_name.
              bind (py_getitem app ''framework'') (\<lambda>framework.
              Inr (app_name, framework)))) of
           Inl e \<Rightarrow> (Inl e, config, [])
         | Inr (app_name, framework) \<Rightarrow>
             (case build_run st config r of
                (Inl e, config) \<Rightarrow> (Inl e, config, [Build])
              | (Inr build_result, config) \<Rightarrow>
                  (case check_stage rt ''Build failed'' ''Unknown build error'' build_result of
                     Inl e \<Rightarrow> (Inl e, config, [Build])
                   | Inr _ \<Rightarrow>
                       (case docker_run st config r of
                          (Inl e, config) \<Rightarrow> (Inl e, config, [Build, Container])
                        | (Inr docker_result, config) \<Rightarrow>
                            (case check_stage rt ''Docker process failed''
                                    ''Unknown Docker error'' docker_result of
                               Inl e \<Rightarrow> (Inl e, config, [Build, Container])
                             | Inr _ \<Rightarrow>
                                 (Inr \<lparr>p_build_result = build_result,
                                       p_docker_result = docker_result,
                                       p_app_name = app_name,
                                       p_framework = framework\<rparr>,
                                  config, [Build, Container])))))))"

definition process_repository ::
  "runtime \<Rightarrow> stages \<Rightarrow> repo \<Rightarrow> dict \<Rightarrow> processing result \<times> dict \<times> stage list" where
  "process_repository rt st r config =
     (case processing_steps rt st r config of
        (Inl e, config, trace) \<Rightarrow> (Failure e, config, trace)
      | (Inr p, config, trace) \<Rightarrow> (Success p, config, trace))"

text \<open>
  \<open>full_pipeline\<close> has no \<^verbatim>\<open>try\<close> of its own: an exception of the Deploy collaborator
  leaves it as an exception (\<open>Inl\<close>). The \<open>analysis\<close> entry of the final dict holds the
  configuration object as the stages left it.
\<close>

record pipeline =
  pl_analysis :: analysis
  pl_processing :: processing
  pl_deployment :: "pyval option"

definition full_pipeline ::
  "runtime \<Rightarrow> merger \<Rightarrow> stages \<Rightarrow> repo \<Rightarrow> bool \<Rightarrow> (error + pipeline result) \<times> stage list" where
  "full_pipeline rt m st r deploy =
     (case analyze_only rt m r of
        Failure e \<Rightarrow> (Inr (Failure e), [])
      | Success analysis_result \<Rightarrow>
          (case process_repository rt st r (a_config analysis_result) of
             (Failure e, config, trace) \<Rightarrow> (Inr (Failure e), trace)
           | (Success process_result, config, trace) \<Rightarrow>
               (if deploy then
                  (case deploy_run st config of
                     (Inl e, config) \<Rightarrow> (Inl e, trace @ [Deploy])
                   | (Inr deploy_result, config) \<Rightarrow>
                       (Inr (Success \<lparr>pl_analysis = analysis_result\<lparr>a_config := config\<rparr>,
                                      pl_processing = process_result,
                                      pl_deployment = Some deploy_result\<rparr>),
                        trace @ [Deploy]))
                else
                  (Inr (Success \<lparr>pl_analysis = analysis_result\<lparr>a_config := config\<rparr>,
                                 pl_processing = process_result,
                                 pl_deployment = None\<rparr>),
                   trace))))"


section \<open>The manifests the detector handles, and the scoring rule in the specification's words\<close>











section \<open>Example inputs\<close>

text \<open>
  A runtime whose environment sets the listed variables. The examples format strings
  only, so the rendering of other values by \<^verbatim>\<open>str\<close> does not matter in them.
\<close>

definition runtime_of :: "(string \<times> string) list \<Rightarrow> runtime" where
  "runtime_of vars = \<lparr>environ = map_of vars, str_of = (\<lambda>v. [])\<rparr>"

definition empty_merger :: merger where
  "empty_merger = \<lparr>global_config = [], framework_defaults = []\<rparr>"

text \<open>
  An Angular repository whose manifest declares the empty package name:
  \<^verbatim>\<open>{"name": "", "dependencies": {"@angular/core": "17.0.0"},
 "scripts": {"build:prod": "ng build --configuration production"}}\<close>
\<close>

definition unnamed_angular_repo :: repo where
  "unnamed_angular_repo =
     \<lparr>repo_path = ''/srv/checkout'', dir_name = ''checkout'', path_exists = True,
      entries = [''package.json'', ''angular.json'', ''src/main.ts''],
      package_json =
        Decoded (PDict
          [(''name'', PStr []),
           (''dependencies'', PDict [(''@angular/core'', PStr ''17.0.0'')]),
           (''scripts'',
              PDict [(''build:prod'', PStr ''ng build --configuration production'')])])\<rparr>"

text \<open>Collaborators that leave the configuration alone and return the given results.\<close>

definition stages_returning :: "pyval \<Rightarrow> pyval \<Rightarrow> pyval \<Rightarrow> stages" where
  "stages_returning b d k =
     \<lparr>build_run = (\<lambda>config r. (Inr b, config)),
      docker_run = (\<lambda>config r. (Inr d, config)),
      deploy_run = (\<lambda>config. (Inr k, config))\<rparr>"

definition ok_result :: pyval where
  "ok_result = PDict [(''success'', PBool True)]"

definition failed_result :: "string \<Rightarrow> pyval" where
  "failed_result msg = PDict [(''success'', PBool False), (''error'', PStr msg)]"

definition web_config :: dict where
  "web_config =
     [(''app'', PDict [(''name'', PStr ''web''), (''framework'', PStr ''react'')]),
      (''docker'', PDict [(''repository'', PStr ''myorg'')]),
      (''deployment'',
         PDict [(''resources'',
           PDict [(''limits'', PDict [(''cpu'', PStr ''500m'')]),
                  (''requests'', PDict [(''cpu'', PStr ''250m'')])])])]"


text \<open>
  An application layer that pins its source, and what \<open>merge_config\<close> makes of it with
  no CI variable set and no global or framework layer.
\<close>

definition pinned_source_config :: dict where
  "pinned_source_config =
     [(''app'', PDict [(''name'', PStr ''web'')]),
      (''source'', PDict [(''repo_url'', PStr ''https://example.org/web.git''),
                          (''branch'', PStr ''develop''),
                          (''commit_sha'', PStr ''9fceb02d0ae598e95dc970b74767f19372d61af8'')])]"

definition pinned_source_merged :: dict where
  "pinned_source_merged =
     [(''app'', PDict [(''name'', PStr ''web''), (''framework'', PStr ''react''),
                       (''detected_framework'', PStr ''react'')]),
      (''source'', PDict [(''repo_url'', PStr ''https://example.org/web.git''),
                          (''branch'', PStr ''develop''), (''commit_sha'', PStr [])]),
      (''docker'', PDict [(''repository'', PStr ''myorg''), (''image'', PStr ''web''),
                          (''tag'', PStr ''vlocal''),
                          (''full_image'', PStr ''myorg/web:vlocal''),
                          (''latest_image'', PStr ''myorg/web:latest'')]),
      (''deployment'', PDict [(''namespace'', PStr ''web''),
                              (''environment'', PStr ''staging'')])]"












text \<open>
  A merger whose global configuration has a \<open>deployment\<close> section without
  \<open>environment\<close>, an application layer without \<open>deployment\<close>, and two CI runs on
  different branches.
\<close>

definition replicas_merger :: merger where
  "replicas_merger =
     \<lparr>global_config = [(''deployment'', PDict [(''replicas'', PInt 2)])],
      framework_defaults = []\<rparr>"

definition web_layer :: dict where
  "web_layer = [(''app'', PDict [(''name'', PStr ''web'')])]"

definition on_branch :: "string \<Rightarrow> runtime" where
  "on_branch b = runtime_of [(''BUILD_SOURCEBRANCHNAME'', b)]"





text \<open>
  Two layers that meet in every way a key can: only below, only above, dict on dict,
  scalar on dict.
\<close>

definition lower_layer :: dict where
  "lower_layer =
     [(''a'', PInt 1), (''b'', PDict [(''x'', PInt 1)]), (''d'', PDict [(''x'', PInt 1)])]"

definition higher_layer :: dict where
  "higher_layer = [(''b'', PDict [(''y'', PInt 2)]), (''c'', PStr ''z''), (''d'', PInt 7)]"

section \<open>Properties of the Configuration Resolver\<close>

lemma bind_Inr_iff: "bind x f = Inr y \<longleftrightarrow> (\<exists>a. x = Inr a \<and> f a = Inr y)"
  by (cases x) (simp_all add: bind_def)

lemma bind_simps: "bind (Inl e) f = Inl e" "bind (Inr a) f = f a"
  by (simp_all add: bind_def)

text \<open>
  One equation for every key of a merge: the override's entry decides, and only a dict
  on both sides is merged recursively.
\<close>

lemma deep_merge_lookup:
  "distinct (map fst B) \<Longrightarrow>
   map_of (deep_merge A B) k =
     (case map_of B k of
        None \<Rightarrow> map_of A k
      | Some vb \<Rightarrow>
          (case (map_of A k, vb) of
             (Some (PDict a), PDict b) \<Rightarrow> Some (PDict (deep_merge a b))
           | _ \<Rightarrow> Some vb))"
proof (induction B arbitrary: A)
  case Nil
  then show ?case by simp
next
  case (Cons kv B)
  obtain key v where kv: "kv = (key, v)" by (cases kv)
  from Cons.prems kv have nk: "map_of B key = None" and d: "distinct (map fst B)"
    by (auto simp: map_of_eq_None_iff)
  show ?case
  proof (cases "k = key")
    case True
    then show ?thesis using nk kv Cons.IH[OF d]
      by (auto simp: update_conv' split: option.splits pyval.splits)
  next
    case False
    then show ?thesis using kv Cons.IH[OF d]
      by (auto simp: update_conv' split: option.splits pyval.splits)
  qed
qed

text \<open>
  Claim C7. For two dicts \<open>A\<close> (lower priority) and \<open>B\<close> (higher priority, its keys
  distinct as in every Python dict) and every key \<open>k\<close>, the deep merge has \<open>A\<close>'s entry
  when \<open>k\<close> is absent from \<open>B\<close>, \<open>B\<close>'s entry when \<open>k\<close> is only in \<open>B\<close>, the deep merge of
  the two entries when both are dicts, and \<open>B\<close>'s entry outright when the two entries are
  not both dicts. The third case is the same statement one level down, so the
  characterisation holds at every nesting level.
\<close>

theorem deep_merge_precedence:
  assumes "distinct (map fst B)"
  shows "(map_of B k = None \<longrightarrow> map_of (deep_merge A B) k = map_of A k)
       \<and> (map_of A k = None \<longrightarrow> map_of B k \<noteq> None \<longrightarrow>
            map_of (deep_merge A B) k = map_of B k)
       \<and> (\<forall>a b. map_of A k = Some (PDict a) \<longrightarrow> map_of B k = Some (PDict b) \<longrightarrow>
            map_of (deep_merge A B) k = Some (PDict (deep_merge a b)))
       \<and> (\<forall>va vb. map_of A k = Some va \<longrightarrow> map_of B k = Some vb \<longrightarrow>
            \<not> ((\<exists>a. va = PDict a) \<and> (\<exists>b. vb = PDict b)) \<longrightarrow>
            map_of (deep_merge A B) k = Some vb)"
  using deep_merge_lookup[OF assms, of A k]
  by (auto split: option.splits pyval.splits)

theorem deep_merge_precedence_witness:
  "distinct (map fst higher_layer)
   \<and> map_of (deep_merge lower_layer higher_layer) ''a'' = Some (PInt 1)
   \<and> map_of (deep_merge lower_layer higher_layer) ''c'' = Some (PStr ''z'')
   \<and> map_of (deep_merge lower_layer higher_layer) ''b''
       = Some (PDict (deep_merge [(''x'', PInt 1)] [(''y'', PInt 2)]))
   \<and> map_of (deep_merge lower_layer higher_layer) ''d'' = Some (PInt 7)
   \<and> deep_merge lower_layer higher_layer
       = [(''a'', PInt 1), (''b'', PDict [(''x'', PInt 1), (''y'', PInt 2)]), (''d'', PInt 7),
          (''c'', PStr ''z'')]"
proof -
  have d: "distinct (map fst higher_layer)" by (simp add: higher_layer_def)
  have la: "map_of lower_layer ''a'' = Some (PInt 1)" "map_of higher_layer ''a'' = None"
    by (simp_all add: lower_layer_def higher_layer_def)
  have lc: "map_of lower_layer ''c'' = None" "map_of higher_layer ''c'' = Some (PStr ''z'')"
    by (simp_all add: lower_layer_def higher_layer_def)
  have lb: "map_of lower_layer ''b'' = Some (PDict [(''x'', PInt 1)])"
    "map_of higher_layer ''b'' = Some (PDict [(''y'', PInt 2)])"
    by (simp_all add: lower_layer_def higher_layer_def)
  have ld: "map_of lower_layer ''d'' = Some (PDict [(''x'', PInt 1)])"
    "map_of higher_layer ''d'' = Some (PInt 7)"
    by (simp_all add: lower_layer_def higher_layer_def)
  from deep_merge_precedence[OF d, of "''a''" lower_layer] la
  have a: "map_of (deep_merge lower_layer higher_layer) ''a'' = Some (PInt 1)" by simp
  from deep_merge_precedence[OF d, of "''c''" lower_layer] lc
  have c: "map_of (deep_merge lower_layer higher_layer) ''c'' = Some (PStr ''z'')" by simp
  from deep_merge_precedence[OF d, of "''b''" lower_layer] lb
  have b: "map_of (deep_merge lower_layer higher_layer) ''b''
       = Some (PDict (deep_merge [(''x'', PInt 1)] [(''y'', PInt 2)]))" by blast
  from deep_merge_precedence[OF d, of "''d''" lower_layer] ld
  have dd: "map_of (deep_merge lower_layer higher_layer) ''d'' = Some (PInt 7)" by blast
  have m: "deep_merge lower_layer higher_layer
       = [(''a'', PInt 1), (''b'', PDict [(''x'', PInt 1), (''y'', PInt 2)]), (''d'', PInt 7),
          (''c'', PStr ''z'')]"
    by code_simp
  show ?thesis by (intro conjI d a c b dd m)
qed

text \<open>
  Claim C2. The claim says that \<open>validate_config\<close> returns normally on every
  configuration. The code does not: whenever \<open>deployment.resources\<close> is a dict holding
  both \<open>limits\<close> and \<open>requests\<close>, the call raises. The exception is the \<open>NameError\<close> of
  the unbound name \<open>both\<close>, unless an \<open>app\<close> or \<open>docker\<close> entry that is not a dict has
  raised \<open>AttributeError\<close> before.
\<close>

theorem validate_config_raises:
  assumes "map_of config ''deployment'' = Some (PDict deployment)"
    and "map_of deployment ''resources'' = Some (PDict resources)"
    and "map_of resources ''limits'' = Some limits"
    and "map_of resources ''requests'' = Some requests"
  shows "validate_config config = Inl AttributeError
       \<or> validate_config config = Inl (NameError ''both'')"
proof (cases "py_get (section_of config ''app'') ''name'' PNone")
  case (Inl e)
  then have "e = AttributeError" by (cases "section_of config ''app''") simp_all
  with Inl show ?thesis by (simp add: validate_config_def bind_def)
next
  case app: (Inr n)
  show ?thesis
  proof (cases "py_get (section_of config ''docker'') ''repository'' PNone")
    case (Inl e)
    then have "e = AttributeError" by (cases "section_of config ''docker''") simp_all
    with Inl app show ?thesis by (simp add: validate_config_def bind_def)
  next
    case (Inr q)
    have s: "section_of config ''deployment'' = PDict deployment"
      using assms(1) by (simp add: section_of_def)
    show ?thesis using app Inr assms s
      by (simp add: validate_config_def bind_def Let_def)
  qed
qed

theorem validate_config_raises_witness:
  "map_of web_config ''deployment'' =
     Some (PDict [(''resources'',
       PDict [(''limits'', PDict [(''cpu'', PStr ''500m'')]),
              (''requests'', PDict [(''cpu'', PStr ''250m'')])])])
   \<and> (validate_config web_config = Inl AttributeError
      \<or> validate_config web_config = Inl (NameError ''both''))"
proof -
  have h1: "map_of web_config ''deployment'' =
     Some (PDict [(''resources'',
       PDict [(''limits'', PDict [(''cpu'', PStr ''500m'')]),
              (''requests'', PDict [(''cpu'', PStr ''250m'')])])])"
    by (simp add: web_config_def)
  have h2: "map_of [(''resources'',
       PDict [(''limits'', PDict [(''cpu'', PStr ''500m'')]),
              (''requests'', PDict [(''cpu'', PStr ''250m'')])])] ''resources'' =
     Some (PDict [(''limits'', PDict [(''cpu'', PStr ''500m'')]),
              (''requests'', PDict [(''cpu'', PStr ''250m'')])])"
    by simp
  have h3: "map_of [(''limits'', PDict [(''cpu'', PStr ''500m'')]),
              (''requests'', PDict [(''cpu'', PStr ''250m'')])] ''limits'' =
     Some (PDict [(''cpu'', PStr ''500m'')])"
    by simp
  have h4: "map_of [(''limits'', PDict [(''cpu'', PStr ''500m'')]),
              (''requests'', PDict [(''cpu'', PStr ''250m'')])] ''requests'' =
     Some (PDict [(''cpu'', PStr ''250m'')])"
    by simp
  from validate_config_raises[OF h1 h2 h3 h4] h1 show ?thesis by blast
qed


text \<open>What a successful call of each part of \<open>_add_auto_detected_values\<close> has done.\<close>

lemma py_setitem_Inr:
  "py_setitem x k v = Inr y \<longleftrightarrow> (\<exists>d. x = PDict d \<and> y = PDict (AList.update k v d))"
  by (cases x) auto

lemma py_get_Inr:
  "py_get x k dflt = Inr y \<longleftrightarrow>
     (\<exists>d. x = PDict d \<and> y = (case map_of d k of Some v \<Rightarrow> v | None \<Rightarrow> dflt))"
  by (cases x) auto

lemma py_getitem_Inr:
  "py_getitem x k = Inr y \<longleftrightarrow> (\<exists>d. x = PDict d \<and> map_of d k = Some y)"
  by (cases x) (auto split: option.splits)

lemma section_of_update:
  "section_of (AList.update k v c) k' = (if k' = k then v else section_of c k')"
  by (simp add: section_of_def update_conv')

lemma auto_source_Inr:
  assumes "auto_source rt c = Inr c'"
  shows "\<exists>s. section_of c ''source'' = PDict s \<and>
     c' = AList.update ''source''
            (PDict (AList.update ''commit_sha'' (getenv rt ''BUILD_SOURCEVERSION'' (PStr []))
               (AList.update ''branch''
                  (getenv rt ''BUILD_SOURCEBRANCHNAME''
                     (case map_of s ''branch'' of Some v \<Rightarrow> v | None \<Rightarrow> PStr ''main''))
                  (AList.update ''repo_url''
                     (getenv rt ''BUILD_REPOSITORY_URI''
                        (case map_of s ''repo_url'' of Some v \<Rightarrow> v | None \<Rightarrow> PStr []))
                     s)))) c"
  using assms
  by (auto simp: auto_source_def Let_def bind_Inr_iff py_setitem_Inr py_get_Inr update_conv')

lemma auto_app_Inr:
  assumes "auto_app rt c orig fw = Inr c'"
  shows "\<exists>a n. c' = AList.update ''app'' (PDict a) c \<and> map_of a ''name'' = Some n
      \<and> map_of a ''framework'' = Some (PStr fw)
      \<and> map_of a ''detected_framework'' = Some (PStr fw)"
  using assms
  by (auto simp: auto_app_def Let_def bind_Inr_iff py_setitem_Inr py_get_Inr update_conv'
      split: if_splits)

lemma auto_docker_Inr:
  assumes "auto_docker rt m c = Inr c'"
  shows "\<exists>d. c' = AList.update ''docker'' (PDict d) c"
  using assms
  by (auto simp: auto_docker_def Let_def bind_Inr_iff py_setitem_Inr split: if_splits)

lemma auto_deployment_Inr:
  assumes "auto_deployment c = Inr c'"
  shows "\<exists>d. c' = AList.update ''deployment'' d c"
  using assms
  by (auto simp: auto_deployment_def Let_def bind_Inr_iff split: if_splits)

lemma merge_config_Inr:
  assumes "merge_config rt m app fw = Inr c"
  shows "\<exists>c1 c2 c3.
      auto_app rt (add_environment_overrides rt (merged_layers m app fw)) app fw = Inr c1
    \<and> auto_source rt c1 = Inr c2 \<and> auto_docker rt m c2 = Inr c3 \<and> auto_deployment c3 = Inr c"
  using assms by (auto simp: merge_config_def add_auto_detected_values_def bind_Inr_iff)

text \<open>
  Claim C9. The claim says that \<open>source.commit_sha\<close> falls back to the value already in
  the merged layers when the source-version variable is unset. The code gives
  \<open>repo_url\<close> and \<open>branch\<close> that fallback, but assigns
  \<^verbatim>\<open>os.getenv('BUILD_SOURCEVERSION', '')\<close> to \<open>commit_sha\<close>: with the variable unset, every
  successful merge ends with the empty \<open>commit_sha\<close>, whatever the layers held.
\<close>

theorem commit_sha_not_preserved:
  assumes "merge_config rt m app_config fw = Inr c"
    and "environ rt ''BUILD_SOURCEVERSION'' = None"
  shows "py_getitem (section_of c ''source'') ''commit_sha'' = Inr (PStr [])"
proof -
  obtain c1 c2 c3 where
    s: "auto_source rt c1 = Inr c2" and d: "auto_docker rt m c2 = Inr c3"
    and p: "auto_deployment c3 = Inr c"
    using merge_config_Inr[OF assms(1)] by blast
  from auto_source_Inr[OF s] obtain src where
    c2: "section_of c2 ''source'' = PDict src"
      "map_of src ''commit_sha'' = Some (getenv rt ''BUILD_SOURCEVERSION'' (PStr []))"
    by (auto simp: section_of_update update_conv')
  from auto_docker_Inr[OF d] c2 have "section_of c3 ''source'' = PDict src"
    by (auto simp: section_of_update)
  with auto_deployment_Inr[OF p] have "section_of c ''source'' = PDict src"
    by (auto simp: section_of_update)
  with c2(2) assms(2) show ?thesis by (simp add: getenv_def)
qed

theorem commit_sha_not_preserved_witness:
  "merge_config (runtime_of []) empty_merger pinned_source_config ''react''
     = Inr pinned_source_merged
   \<and> environ (runtime_of []) ''BUILD_SOURCEVERSION'' = None
   \<and> py_getitem (section_of pinned_source_config ''source'') ''commit_sha''
       = Inr (PStr ''9fceb02d0ae598e95dc970b74767f19372d61af8'')
   \<and> py_getitem (section_of pinned_source_merged ''source'') ''commit_sha'' = Inr (PStr [])"
proof -
  have h: "environ (runtime_of []) ''BUILD_SOURCEVERSION'' = None"
    by (simp add: runtime_of_def)
  have ev: "merge_config (runtime_of []) empty_merger pinned_source_config ''react''
     = Inr pinned_source_merged"
    by code_simp
  have before: "py_getitem (section_of pinned_source_config ''source'') ''commit_sha''
       = Inr (PStr ''9fceb02d0ae598e95dc970b74767f19372d61af8'')"
    by code_simp
  from commit_sha_not_preserved[OF ev h] ev h before show ?thesis by blast
qed

lemma auto_deployment_derives:
  assumes "auto_deployment c = Inr c'"
    and "map_of c ''deployment'' = None
       \<or> (\<exists>d. map_of c ''deployment'' = Some (PDict d) \<and> map_of d ''environment'' = None)"
    and "section_of c ''source'' = PDict src" and "map_of src ''branch'' = Some branch"
  shows "\<exists>dep. c' = AList.update ''deployment'' (PDict dep) c
      \<and> map_of dep ''environment'' = Some (PStr (environment_of_branch branch))"
proof -
  from assms(2) obtain d where d: "section_of c ''deployment'' = PDict d"
    "map_of d ''environment'' = None"
    by (auto simp: section_of_def)
  show ?thesis using assms(1,3,4) d
    by (auto simp: auto_deployment_def Let_def bind_Inr_iff py_setitem_Inr py_get_Inr
        py_getitem_Inr update_conv' split: if_splits)
qed

text \<open>
  Within one call, from the state the call starts in: when the merged explicit layers
  (global, framework defaults, application) give no \<open>deployment.environment\<close>, that is,
  have no \<open>deployment\<close> section or a \<open>deployment\<close> dict without the key, the returned
  configuration has \<open>deployment.environment\<close> derived from its \<open>source.branch\<close>.
\<close>

lemma environment_from_branch_in_one_call:
  assumes "merge_config rt m app_config fw = Inr c"
    and "map_of (merged_layers m app_config fw) ''deployment'' = None
       \<or> (\<exists>d. map_of (merged_layers m app_config fw) ''deployment'' = Some (PDict d)
              \<and> map_of d ''environment'' = None)"
  shows "\<exists>src dep branch env.
      map_of c ''source'' = Some (PDict src) \<and> map_of src ''branch'' = Some branch
    \<and> map_of c ''deployment'' = Some (PDict dep)
    \<and> map_of dep ''environment'' = Some (PStr env)
    \<and> (branch = PStr ''main'' \<or> branch = PStr ''master'' \<longrightarrow> env = ''production'')
    \<and> (branch = PStr ''develop'' \<longrightarrow> env = ''staging'')
    \<and> (branch \<noteq> PStr ''main'' \<and> branch \<noteq> PStr ''master'' \<and> branch \<noteq> PStr ''develop''
         \<longrightarrow> env = ''development'')"
proof -
  let ?L = "merged_layers m app_config fw"
  obtain c1 c2 c3 where
    a: "auto_app rt (add_environment_overrides rt ?L) app_config fw = Inr c1"
    and s: "auto_source rt c1 = Inr c2" and d: "auto_docker rt m c2 = Inr c3"
    and p: "auto_deployment c3 = Inr c"
    using merge_config_Inr[OF assms(1)] by blast
  have e0: "map_of (add_environment_overrides rt ?L) ''deployment'' = map_of ?L ''deployment''"
    by (simp add: add_environment_overrides_def update_conv')
  from auto_app_Inr[OF a] e0 have e1: "map_of c1 ''deployment'' = map_of ?L ''deployment''"
    by (auto simp: update_conv')
  from auto_source_Inr[OF s] obtain src branch where
    c2: "c2 = AList.update ''source'' (PDict src) c1" "map_of src ''branch'' = Some branch"
    by (auto simp: update_conv')
  from auto_docker_Inr[OF d] obtain dk where c3: "c3 = AList.update ''docker'' (PDict dk) c2"
    by blast
  have e3: "map_of c3 ''deployment'' = map_of ?L ''deployment''"
    using e1 c2(1) c3 by (simp add: update_conv')
  have s3: "section_of c3 ''source'' = PDict src"
    using c2(1) c3 by (simp add: section_of_update)
  from auto_deployment_derives[OF p _ s3 c2(2)] assms(2) e3
  obtain dep where dep: "c = AList.update ''deployment'' (PDict dep) c3"
    "map_of dep ''environment'' = Some (PStr (environment_of_branch branch))"
    by auto
  have "map_of c ''source'' = Some (PDict src)"
    using dep(1) c3 c2(1) by (simp add: update_conv')
  moreover have "map_of c ''deployment'' = Some (PDict dep)"
    using dep(1) by (simp add: update_conv')
  ultimately show ?thesis using c2(2) dep(2)
    by (auto simp: environment_of_branch_def)
qed

text \<open>
  The tagged layers are the merged layers with owners added, and the value of a call
  is \<open>merge_config\<close> on the state the call starts in.
\<close>

lemma untag_update: "untag (AList.update k (who, v) R) = AList.update k v (untag R)"
  by (induction R) (auto simp: untag_def)

lemma map_of_untag: "map_of (untag R) k = map_option snd (map_of R k)"
  by (induction R) (auto simp: untag_def)

lemma untag_tag_layer: "untag (tag_layer who layer) = layer"
  by (induction layer) (auto simp: untag_def tag_layer_def)

lemma untag_Cons: "untag ((k, who, v) # ov) = (k, v) # untag ov"
  by (simp add: untag_def)

lemma untag_deep_merge_top:
  "untag (deep_merge_top R ov) = deep_merge (untag R) (untag ov)"
proof (induction ov arbitrary: R)
  case Nil
  then show ?case by (simp add: untag_def)
next
  case (Cons e ov)
  obtain k who v where e: "e = (k, who, v)" by (cases e)
  let ?R' = "(case (map_of R k, v) of
          (Some (_, PDict r), PDict v') \<Rightarrow>
            AList.update k (Fresh, PDict (deep_merge r v')) R
        | _ \<Rightarrow> AList.update k (who, v) R)"
  have step: "untag ?R' =
      (case (map_of (untag R) k, v) of
          (Some (PDict r), PDict v') \<Rightarrow> AList.update k (PDict (deep_merge r v')) (untag R)
        | _ \<Rightarrow> AList.update k v (untag R))"
    by (auto simp: untag_update map_of_untag split: option.splits pyval.splits)
  have "untag (deep_merge_top R (e # ov)) = untag (deep_merge_top ?R' ov)"
    by (simp add: e)
  also have "\<dots> = deep_merge (untag ?R') (untag ov)" by (rule Cons.IH)
  also have "\<dots> = deep_merge (untag R) (untag (e # ov))"
    unfolding step e untag_Cons by simp
  finally show ?case .
qed

lemma untag_tagged_layers: "untag (tagged_layers m app fw) = merged_layers m app fw"
proof -
  have "untag [] = []" by (simp add: untag_def)
  then show ?thesis
    by (simp add: tagged_layers_def merged_layers_def untag_deep_merge_top untag_tag_layer)
qed

lemma auto_docker_cong:
  assumes "section_of (global_config m1) ''docker'' = section_of (global_config m2) ''docker''"
  shows "auto_docker rt m1 c = auto_docker rt m2 c"
  unfolding auto_docker_def assms ..

lemma store_section_docker:
  "k \<noteq> ''docker'' \<Longrightarrow>
   section_of (global_config (fst (store_section who fw k v s))) ''docker''
     = section_of (global_config (fst s)) ''docker''"
  by (cases who; cases s) (auto simp: section_of_def update_conv')

lemma merge_config_call_value:
  "fst (merge_config_call rt m app fw) = merge_config rt m app fw"
proof -
  have d: "auto_docker rt
             (fst (assigned ow fw ''source'' c2 (assigned ow fw ''app'' c1 (m, app)))) c
           = auto_docker rt m c" for ow c1 c2 c
    by (rule auto_docker_cong) (simp add: assigned_def store_section_docker)
  show ?thesis
    unfolding merge_config_call_def merge_config_def add_auto_detected_values_def Let_def
    by (auto simp: bind_def d split: sum.splits)
qed

text \<open>
  Claim C10. The claim holds for one call, but not for the merger object across calls.
  A merger whose global configuration has \<^verbatim>\<open>deployment: {replicas: 2}\<close> and an
  application layer without \<open>deployment\<close> provide no \<open>deployment.environment\<close>. The first
  \<open>merge_config\<close>, on branch \<open>main\<close>, stores the global layer's \<open>deployment\<close> dict itself
  in the merged tree and assigns \<open>namespace\<close> and \<open>environment\<close> into it. The second call
  on the same merger, on branch \<open>feature/x\<close>, finds \<open>environment\<close> in that dict and
  returns \<open>production\<close> with \<open>source.branch = feature/x\<close>, where the mapping gives
  \<open>development\<close>; a first call on that branch returns \<open>development\<close>.
\<close>

theorem stale_environment_on_reused_merger:
  "map_of (merged_layers replicas_merger web_layer ''react'') ''deployment''
     = Some (PDict [(''replicas'', PInt 2)])
   \<and> (case merge_config_call (on_branch ''main'') replicas_merger web_layer ''react'' of
        (first, used_merger, a) \<Rightarrow>
          (case merge_config_call (on_branch ''feature/x'') used_merger web_layer ''react'' of
             (Inr config, s) \<Rightarrow>
               py_getitem (section_of config ''source'') ''branch'' = Inr (PStr ''feature/x'')
               \<and> py_getitem (section_of config ''deployment'') ''environment''
                   = Inr (PStr ''production'')
           | (Inl e, s) \<Rightarrow> False))
   \<and> (case merge_config_call (on_branch ''feature/x'') replicas_merger web_layer ''react'' of
         (Inr config, s) \<Rightarrow>
           py_getitem (section_of config ''deployment'') ''environment''
             = Inr (PStr ''development'')
       | (Inl e, s) \<Rightarrow> False)"
  by code_simp

section \<open>Properties of the Pipeline Orchestrator\<close>

text \<open>
  Claim C5. Whatever the repository and the configuration, when the Build collaborator
  returns a result whose \<open>success\<close> entry is false, \<open>process_repository\<close> returns a
  failure and the Container collaborator is not in the trace of that run.
\<close>

theorem build_failure_aborts:
  assumes "fst (build_run st config r) = Inr b"
    and "py_getitem b ''success'' = Inr v"
    and "\<not> truthy v"
  shows "\<not> succeeded (fst (process_repository rt st r config))
       \<and> Container \<notin> set (snd (snd (process_repository rt st r config)))"
proof -
  obtain c' where br: "build_run st config r = (Inr b, c')"
    using assms(1) by (cases "build_run st config r") auto
  have "\<exists>d. b = PDict d" using assms(2) by (cases b) simp_all
  then have "\<exists>e. check_stage rt ''Build failed'' ''Unknown build error'' b = Inl e"
    using assms(2,3) by (auto simp: check_stage_def bind_def)
  then obtain e where cs: "check_stage rt ''Build failed'' ''Unknown build error'' b = Inl e" ..
  have "\<exists>e c t. processing_steps rt st r config = (Inl e, c, t) \<and> Container \<notin> set t"
    using br cs
    by (auto simp: processing_steps_def split: sum.splits prod.splits)
  then show ?thesis
    by (auto simp: process_repository_def)
qed

theorem build_failure_aborts_witness:
  "fst (build_run (stages_returning (failed_result ''npm failed'') ok_result ok_result)
          web_config unnamed_angular_repo) = Inr (failed_result ''npm failed'')
   \<and> py_getitem (failed_result ''npm failed'') ''success'' = Inr (PBool False)
   \<and> \<not> truthy (PBool False)
   \<and> process_repository (runtime_of [])
        (stages_returning (failed_result ''npm failed'') ok_result ok_result)
        unnamed_angular_repo web_config
      = (Failure (PyException ''Build failed: npm failed''), web_config, [Build])
   \<and> \<not> succeeded (fst (process_repository (runtime_of [])
        (stages_returning (failed_result ''npm failed'') ok_result ok_result)
        unnamed_angular_repo web_config))
   \<and> Container \<notin> set (snd (snd (process_repository (runtime_of [])
        (stages_returning (failed_result ''npm failed'') ok_result ok_result)
        unnamed_angular_repo web_config)))"
proof -
  have h1: "fst (build_run (stages_returning (failed_result ''npm failed'') ok_result ok_result)
          web_config unnamed_angular_repo) = Inr (failed_result ''npm failed'')"
    by (simp add: stages_returning_def)
  have h2: "py_getitem (failed_result ''npm failed'') ''success'' = Inr (PBool False)"
    by (simp add: failed_result_def)
  have h3: "\<not> truthy (PBool False)" by simp
  have ev: "process_repository (runtime_of [])
        (stages_returning (failed_result ''npm failed'') ok_result ok_result)
        unnamed_angular_repo web_config
      = (Failure (PyException ''Build failed: npm failed''), web_config, [Build])"
    by code_simp
  from build_failure_aborts[OF h1 h2 h3, of "runtime_of []"] h1 h2 h3 ev
  show ?thesis by blast
qed

text \<open>
  Claim C1. The claim says that a configuration whose \<open>validation.valid\<close> is false never
  reaches the Build stage. The guard of \<open>process_repository\<close> tests the top-level
  \<open>success\<close> entry of the configuration, which a resolved configuration does not have;
  \<open>validation.valid\<close> is read nowhere. For the repository whose manifest declares the
  empty name, the analysis yields \<open>valid = False\<close> (\<open>app.name is required\<close>), and both
  \<open>process_repository\<close> on that configuration and \<open>full_pipeline\<close> on that repository
  invoke the Build and the Container collaborators and succeed.
\<close>

theorem invalid_config_is_built:
  "(case analyze_only (runtime_of []) empty_merger unnamed_angular_repo of
      Failure e \<Rightarrow> False
    | Success a \<Rightarrow>
        py_getitem (section_of (a_config a) ''validation'') ''valid'' = Inr (PBool False)
        \<and> (case process_repository (runtime_of [])
                   (stages_returning ok_result ok_result ok_result)
                   unnamed_angular_repo (a_config a) of
             (outcome, config, trace) \<Rightarrow> succeeded outcome \<and> trace = [Build, Container]))
   \<and> snd (full_pipeline (runtime_of []) empty_merger
             (stages_returning ok_result ok_result ok_result)
             unnamed_angular_repo True)
       = [Build, Container, Deploy]"
  by code_simp

text \<open>
  Claim C4. The claim says that a failed Deploy stage makes \<open>full_pipeline\<close> return that
  failure. The code checks \<open>success\<close> after the analysis and after the processing step,
  but not after the Deploy collaborator: with a Deploy result
  \<^verbatim>\<open>{'success': False, 'error': 'kubectl apply failed'}\<close> the pipeline returns
  \<^verbatim>\<open>{'success': True, ...}\<close> and only stores the failed result under \<open>deployment\<close>.
\<close>

theorem deploy_failure_reported_as_success:
  "(case full_pipeline (runtime_of []) empty_merger
           (stages_returning ok_result ok_result (failed_result ''kubectl apply failed''))
           unnamed_angular_repo True of
      (Inr (Success p), trace) \<Rightarrow>
        pl_deployment p = Some (failed_result ''kubectl apply failed'')
        \<and> trace = [Build, Container, Deploy]
    | _ \<Rightarrow> False)"
  by code_simp

section \<open>Properties of the Detection Engine\<close>








































section \<open>Properties of re-merging\<close>







lemma section_of_Some: "map_of c k = Some v \<Longrightarrow> section_of c k = v"
  by (simp add: section_of_def)


lemma auto_source_again:
  assumes "map_of c ''source'' = Some (PDict src)"
    and "map_of src ''repo_url'' = Some u" and "getenv rt ''BUILD_REPOSITORY_URI'' u = u"
    and "map_of src ''branch'' = Some b" and "getenv rt ''BUILD_SOURCEBRANCHNAME'' b = b"
    and "map_of src ''commit_sha'' = Some (getenv rt ''BUILD_SOURCEVERSION'' (PStr []))"
  shows "auto_source rt c = Inr c"
  using assms
  by (simp add: auto_source_def section_of_Some bind_simps update_triv)


















end
